theory Spec2Isabelle
  imports Main "HOL-Library.Word" "HOL-Library.Sublist"
begin

section \<open>JavaScript values and strings\<close>

text \<open>
  A JavaScript string is a sequence of UTF-16 code units. Literals of the source that are
  plain ASCII are written with \<open>str\<close>; the few code units beyond ASCII are written as
  numerals.
\<close>

type_synonym jsstring = "16 word list"

definition str :: "string \<Rightarrow> jsstring" where
  "str s = map of_char s"

text \<open>
  The values that travel in the JSON bodies of the backend and in the component state:
  JSON scalars (numbers restricted to integers, which is what identifiers and counts are)
  and \<open>undefined\<close>, the value of a field that is absent. On these values the strict
  equality \<open>===\<close> is structural.
\<close>

datatype jsval = JUndefined | JNull | JBool bool | JNum int | JStr jsstring

fun truthy :: "jsval \<Rightarrow> bool" where
  "truthy JUndefined = False"
| "truthy JNull = False"
| "truthy (JBool b) = b"
| "truthy (JNum n) = (n \<noteq> 0)"
| "truthy (JStr s) = (s \<noteq> [])"

definition strict_eq :: "jsval \<Rightarrow> jsval \<Rightarrow> bool" where
  "strict_eq a b = (a = b)"

text \<open>
  \<open>String.prototype.trim\<close> removes the code units of the ECMAScript productions
  WhiteSpace and LineTerminator from both ends.
\<close>

definition isWhiteSpace :: "16 word \<Rightarrow> bool" where
  "isWhiteSpace c =
     (c = 0x09 \<or> c = 0x0A \<or> c = 0x0B \<or> c = 0x0C \<or> c = 0x0D \<or> c = 0x20 \<or> c = 0xA0
      \<or> c = 0x1680 \<or> (0x2000 \<le> c \<and> c \<le> 0x200A) \<or> c = 0x2028 \<or> c = 0x2029
      \<or> c = 0x202F \<or> c = 0x205F \<or> c = 0x3000 \<or> c = 0xFEFF)"

definition trim :: "jsstring \<Rightarrow> jsstring" where
  "trim s = rev (dropWhile isWhiteSpace (rev (dropWhile isWhiteSpace s)))"

text \<open>A blank input: nothing but white space (the empty string included).\<close>

definition blank :: "jsstring \<Rightarrow> bool" where
  "blank s = list_all isWhiteSpace s"

text \<open>\<open>String.prototype.startsWith\<close> and \<open>String.prototype.includes\<close>.\<close>

fun startsWith :: "'a list \<Rightarrow> 'a list \<Rightarrow> bool" where
  "startsWith _ [] = True"
| "startsWith [] (y # ys) = False"
| "startsWith (x # xs) (y # ys) = (x = y \<and> startsWith xs ys)"

fun str_includes :: "'a list \<Rightarrow> 'a list \<Rightarrow> bool" where
  "str_includes [] t = (t = [])"
| "str_includes (x # xs) t = (startsWith (x # xs) t \<or> str_includes xs t)"

text \<open>
  Template-literal interpolation \<open>${v}\<close> applies ToString. An integer is printed in
  decimal (JavaScript does so for every integer below \<open>10^21\<close> in absolute value).
\<close>

fun digits :: "nat \<Rightarrow> jsstring" where
  "digits n = (if n < 10 then [of_nat (48 + n)] else digits (n div 10) @ [of_nat (48 + n mod 10)])"

declare digits.simps [simp del]

fun to_string :: "jsval \<Rightarrow> jsstring" where
  "to_string JUndefined = str ''undefined''"
| "to_string JNull = str ''null''"
| "to_string (JBool b) = (if b then str ''true'' else str ''false'')"
| "to_string (JNum n) = (if n < 0 then str ''-'' @ digits (nat (- n)) else digits (nat n))"
| "to_string (JStr s) = s"

section \<open>HTTP requests and their outcomes\<close>

datatype http_method = GET | POST

record request =
  verb :: http_method
  path :: string
  body :: "(string \<times> jsval) list option"

text \<open>
  What the \<open>catch\<close> blocks read of a rejected axios call: \<open>err.response?.data?.error\<close>
  (absent when there is no response, no body or no such field; a string otherwise, as the
  backend's error body is \<open>{error: string}\<close>) and \<open>err.message\<close>.
\<close>

record axios_error =
  response_data_error :: "jsstring option"
  err_message :: jsstring

datatype 'a outcome = Resolved 'a | Rejected axios_error

section \<open>Root composition (App)\<close>

text \<open>
  The object handed to the root by \<open>onWebsiteVectorized\<close> and \<open>onSelectWebsite\<close>. Every
  call builds it with a fresh object literal; \<open>ref\<close> is the identity of that object,
  which is what React compares when it decides whether a dependency has changed.
\<close>

record selected =
  ref :: nat
  websiteId :: jsval
  vectorDbId :: jsval
  url :: jsstring

record app =
  selectedWebsite :: "selected option"

definition App_init :: app where
  "App_init = \<lparr>selectedWebsite = None\<rparr>"

definition App_handleWebsiteVectorized :: "selected option \<Rightarrow> app \<Rightarrow> app" where
  "App_handleWebsiteVectorized website st = st\<lparr>selectedWebsite := website\<rparr>"

definition App_handleSelectWebsite :: "selected option \<Rightarrow> app \<Rightarrow> app" where
  "App_handleSelectWebsite website st = st\<lparr>selectedWebsite := website\<rparr>"

text \<open>\<open>Object.is\<close> on the \<open>selectedWebsite\<close> prop: \<open>null\<close> or an object.\<close>

fun object_is :: "selected option \<Rightarrow> selected option \<Rightarrow> bool" where
  "object_is None None = True"
| "object_is (Some a) (Some b) = (ref a = ref b)"
| "object_is _ _ = False"

section \<open>Chat panel (ChatBox)\<close>

datatype sender = User | AI | System

record message =
  msg_id :: int
  msg_text :: jsstring
  msg_sender :: sender
  msg_isError :: "bool option"

record chatbox =
  messages :: "message list"
  input :: jsstring
  cb_isLoading :: bool

definition ChatBox_init :: chatbox where
  "ChatBox_init = \<lparr>messages = [], input = [], cb_isLoading = False\<rparr>"

text \<open>The effect with dependency \<open>[selectedWebsite]\<close>: it runs when the prop has changed.\<close>

definition clear_chat :: "chatbox \<Rightarrow> chatbox" where
  "clear_chat st = st\<lparr>messages := []\<rparr>"

definition ChatBox_rerender :: "selected option \<Rightarrow> selected option \<Rightarrow> chatbox \<Rightarrow> chatbox" where
  "ChatBox_rerender prev new st = (if object_is prev new then st else clear_chat st)"

definition setInput :: "jsstring \<Rightarrow> chatbox \<Rightarrow> chatbox" where
  "setInput v st = st\<lparr>input := v\<rparr>"

text \<open>
  \<open>handleSubmit\<close> up to its \<open>await\<close>: the prop \<open>selectedWebsite\<close> (\<open>prop\<close>), the clock
  \<open>Date.now()\<close> and the state; it returns the new state and the requests issued.
\<close>

definition chat_request :: "jsval \<Rightarrow> jsstring \<Rightarrow> request" where
  "chat_request vdb query =
     \<lparr>verb = POST, path = ''/api/websites/chat/'',
      body = Some [(''vector_db_id'', vdb), (''query'', JStr query)]\<rparr>"

definition ChatBox_handleSubmit ::
  "selected option \<Rightarrow> int \<Rightarrow> chatbox \<Rightarrow> chatbox \<times> request list" where
  "ChatBox_handleSubmit prop now st =
     (case prop of
        None \<Rightarrow> (st, [])
      | Some site \<Rightarrow>
          if trim (input st) = [] then (st, [])
          else
            (st\<lparr>messages := messages st @
                  [\<lparr>msg_id = now, msg_text = input st, msg_sender = User, msg_isError = None\<rparr>],
                input := [], cb_isLoading := True\<rparr>,
             [chat_request (vectorDbId site) (input st)]))"

text \<open>
  \<open>handleSubmit\<close> after its \<open>await\<close>: the request has settled, with the answer of the
  backend or with an error. The state is the one of that moment (the updates are
  functional: \<open>setMessages(prev => [...prev, m])\<close>).
\<close>

definition error_text :: jsstring where
  "error_text = str ''Sorry, there was an error processing your request. Please try again.''"

definition ChatBox_handleSubmit_settled :: "int \<Rightarrow> jsstring outcome \<Rightarrow> chatbox \<Rightarrow> chatbox" where
  "ChatBox_handleSubmit_settled now res st =
     (case res of
        Resolved answer \<Rightarrow>
          st\<lparr>messages := messages st @
                [\<lparr>msg_id = now + 1, msg_text = answer, msg_sender = AI, msg_isError = None\<rparr>],
             cb_isLoading := False\<rparr>
      | Rejected err \<Rightarrow>
          st\<lparr>messages := messages st @
                [\<lparr>msg_id = now + 1, msg_text = error_text, msg_sender = System,
                  msg_isError = Some True\<rparr>],
             cb_isLoading := False\<rparr>)"

text \<open>The panel is idle when no request is awaited: input enabled, no typing indicator.\<close>

definition idle :: "chatbox \<Rightarrow> bool" where
  "idle st = (\<not> cb_isLoading st)"

text \<open>
  A callback prop of a component: absent, or a function of the caller that updates the
  caller's state. \<open>call\<close> is the guarded invocation \<open>if (cb) cb(arg)\<close>.
\<close>

type_synonym 'p callback = "(selected option \<Rightarrow> 'p \<Rightarrow> 'p) option"

definition call :: "'p callback \<Rightarrow> selected option \<Rightarrow> 'p \<Rightarrow> 'p" where
  "call cb arg p = (case cb of None \<Rightarrow> p | Some f \<Rightarrow> f arg p)"

section \<open>Site roster (VectorSelection)\<close>

record website =
  w_id :: jsval
  w_url :: jsstring
  w_title :: jsval
  vector_db_id :: jsval
  date_scraped :: jsval

record vector_selection =
  websites :: "website list"
  vs_isLoading :: bool
  vs_error :: jsstring
  vs_selectedWebsite :: "website option"
  deletingId :: jsval

definition VectorSelection_init :: vector_selection where
  "VectorSelection_init =
     \<lparr>websites = [], vs_isLoading = True, vs_error = [], vs_selectedWebsite = None,
      deletingId = JNull\<rparr>"

definition websites_request :: request where
  "websites_request = \<lparr>verb = GET, path = ''/api/websites/'', body = None\<rparr>"

text \<open>\<open>fetchWebsites\<close> up to its \<open>await\<close>, and after it.\<close>

definition fetchWebsites :: "vector_selection \<Rightarrow> vector_selection \<times> request list" where
  "fetchWebsites st = (st\<lparr>vs_isLoading := True\<rparr>, [websites_request])"

definition fetchWebsites_settled ::
  "website list outcome \<Rightarrow> vector_selection \<Rightarrow> vector_selection" where
  "fetchWebsites_settled res st =
     (case res of
        Resolved data \<Rightarrow>
          st\<lparr>websites := filter (\<lambda>website. truthy (vector_db_id website)) data,
             vs_isLoading := False\<rparr>
      | Rejected err \<Rightarrow>
          st\<lparr>vs_error := str ''Failed to load vectorized websites'', vs_isLoading := False\<rparr>)"

text \<open>The effect with no dependency: it runs once, when the component mounts.\<close>

definition VectorSelection_mount :: "vector_selection \<times> request list" where
  "VectorSelection_mount = fetchWebsites VectorSelection_init"

text \<open>
  \<open>handleSelectWebsite\<close>: \<open>r\<close> is the identity of the object literal it builds for
  the caller, \<open>p\<close> the caller's state.
\<close>

definition VectorSelection_handleSelectWebsite ::
  "'p callback \<Rightarrow> nat \<Rightarrow> website \<Rightarrow> vector_selection \<times> 'p \<Rightarrow> vector_selection \<times> 'p" where
  "VectorSelection_handleSelectWebsite onSelectWebsite r website sp =
     (case sp of (st, p) \<Rightarrow>
        (st\<lparr>vs_selectedWebsite := Some website\<rparr>,
         call onSelectWebsite
           (Some \<lparr>ref = r, websiteId = w_id website, vectorDbId = vector_db_id website,
                  url = w_url website\<rparr>) p))"

text \<open>
  The test \<open>selectedWebsite?.id === website.id\<close>, which the render uses to highlight a
  row and the delete handler uses to decide whether the deleted row was the selected one.
\<close>

definition selected_id :: "website option \<Rightarrow> jsval" where
  "selected_id s = (case s of None \<Rightarrow> JUndefined | Some w \<Rightarrow> w_id w)"

definition is_selected :: "website option \<Rightarrow> website \<Rightarrow> bool" where
  "is_selected s website = strict_eq (selected_id s) (w_id website)"

definition delete_request :: "jsval \<Rightarrow> request" where
  "delete_request vdb =
     \<lparr>verb = POST, path = ''/api/websites/delete_vectorized_data/'',
      body = Some [(''vector_db_id'', vdb)]\<rparr>"

text \<open>
  \<open>handleDeleteWebsite\<close> up to its first \<open>await\<close>; \<open>confirmDelete\<close> is the answer of
  \<open>window.confirm\<close>.
\<close>

definition handleDeleteWebsite ::
  "bool \<Rightarrow> website \<Rightarrow> vector_selection \<Rightarrow> vector_selection \<times> request list" where
  "handleDeleteWebsite confirmDelete website st =
     (if \<not> confirmDelete then (st, [])
      else (st\<lparr>deletingId := w_id website, vs_error := []\<rparr>,
            [delete_request (vector_db_id website)]))"

definition lock_text :: jsstring where
  "lock_text =
     [0x26A0, 0xFE0F] @ str '' Cannot delete: Database files are in use.'' @ [0x0A, 0x0A] @
     str ''Please restart the Django server and try again. This ensures all database connections are properly closed.''"

definition errorMessage_of :: "axios_error \<Rightarrow> jsstring" where
  "errorMessage_of err =
     (case response_data_error err of
        Some e \<Rightarrow> if e \<noteq> [] then e else err_message err
      | None \<Rightarrow> err_message err)"

definition delete_error_text :: "jsstring \<Rightarrow> jsstring" where
  "delete_error_text errorMessage =
     (if str_includes errorMessage (str ''process is using'')
         \<or> str_includes errorMessage (str ''restart the server'')
      then lock_text
      else str ''Failed to delete website: '' @ errorMessage)"

text \<open>
  \<open>handleDeleteWebsite\<close> once the delete request has settled. The handler is a closure
  of the render in which the button was clicked: \<open>website\<close> and \<open>seen\<close> (the
  \<open>selectedWebsite\<close> of that render) are the values it captured. On success it runs up
  to the \<open>await\<close> inside \<open>fetchWebsites\<close>; on failure it runs to its end.
\<close>

definition handleDeleteWebsite_settled ::
  "'p callback \<Rightarrow> website \<Rightarrow> website option \<Rightarrow> unit outcome \<Rightarrow> vector_selection \<times> 'p
     \<Rightarrow> (vector_selection \<times> 'p) \<times> request list" where
  "handleDeleteWebsite_settled onSelectWebsite website seen res sp =
     (case sp of (st, p) \<Rightarrow>
        (case res of
           Resolved _ \<Rightarrow>
             (if is_selected seen website
              then ((fst (fetchWebsites (st\<lparr>vs_selectedWebsite := None\<rparr>)),
                     call onSelectWebsite None p),
                    snd (fetchWebsites (st\<lparr>vs_selectedWebsite := None\<rparr>)))
              else ((fst (fetchWebsites st), p), snd (fetchWebsites st)))
         | Rejected err \<Rightarrow>
             ((st\<lparr>vs_error := delete_error_text (errorMessage_of err), deletingId := JNull\<rparr>,
               p), [])))"

text \<open>The rest of \<open>handleDeleteWebsite\<close>: the roster came back, then \<open>finally\<close>.\<close>

definition handleDeleteWebsite_refetched ::
  "website list outcome \<Rightarrow> vector_selection \<Rightarrow> vector_selection" where
  "handleDeleteWebsite_refetched res st = (fetchWebsites_settled res st)\<lparr>deletingId := JNull\<rparr>"

text \<open>What the roster renders: one of three messages, or one row per site of the list.\<close>

record row =
  row_site :: website
  heading :: jsval
  highlighted :: bool
  delete_disabled :: bool

datatype roster_view =
  Roster_loading | Roster_error jsstring | Roster_empty | Roster_list "row list"

definition render_row :: "vector_selection \<Rightarrow> website \<Rightarrow> row" where
  "render_row st website =
     \<lparr>row_site = website,
      heading = (if truthy (w_title website) then w_title website else JStr (w_url website)),
      highlighted = is_selected (vs_selectedWebsite st) website,
      delete_disabled = strict_eq (deletingId st) (w_id website)\<rparr>"

definition VectorSelection_render :: "vector_selection \<Rightarrow> roster_view" where
  "VectorSelection_render st =
     (if vs_isLoading st then Roster_loading
      else if vs_error st \<noteq> [] then Roster_error (vs_error st)
      else if length (websites st) = 0 then Roster_empty
      else Roster_list (map (render_row st) (websites st)))"

fun rows_of :: "roster_view \<Rightarrow> row list" where
  "rows_of (Roster_list rs) = rs"
| "rows_of _ = []"

text \<open>
  Everything that can happen to a mounted roster: a click on a row, a click on a delete
  button, and the settlement of a request, with whatever the closure of that request
  captured.
\<close>

datatype vs_event =
    Fetch_settled "website list outcome"
  | Select_row nat website
  | Delete_click bool website
  | Delete_settled website "website option" "unit outcome"
  | Refetch_settled "website list outcome"

fun VectorSelection_step ::
  "'p callback \<Rightarrow> vector_selection \<times> 'p \<Rightarrow> vs_event \<Rightarrow> vector_selection \<times> 'p" where
  "VectorSelection_step cb (st, p) (Fetch_settled res) = (fetchWebsites_settled res st, p)"
| "VectorSelection_step cb (st, p) (Select_row r website) =
     VectorSelection_handleSelectWebsite cb r website (st, p)"
| "VectorSelection_step cb (st, p) (Delete_click c website) =
     (fst (handleDeleteWebsite c website st), p)"
| "VectorSelection_step cb (st, p) (Delete_settled website seen res) =
     fst (handleDeleteWebsite_settled cb website seen res (st, p))"
| "VectorSelection_step cb (st, p) (Refetch_settled res) =
     (handleDeleteWebsite_refetched res st, p)"

definition VectorSelection_run ::
  "'p callback \<Rightarrow> vs_event list \<Rightarrow> vector_selection \<times> 'p \<Rightarrow> vector_selection \<times> 'p" where
  "VectorSelection_run cb evs sp = foldl (VectorSelection_step cb) sp evs"

section \<open>URL submission form (URLInput)\<close>

record url_input =
  ui_url :: jsstring
  ui_isLoading :: bool
  ui_error :: jsstring
  success :: jsstring

definition URLInput_init :: url_input where
  "URLInput_init = \<lparr>ui_url = [], ui_isLoading = False, ui_error = [], success = []\<rparr>"

definition scrape_request :: "jsstring \<Rightarrow> request" where
  "scrape_request u =
     \<lparr>verb = POST, path = ''/api/websites/scrape/'', body = Some [(''url'', JStr u)]\<rparr>"

text \<open>
  \<open>handleSubmit\<close> up to its \<open>await\<close>. \<open>new URL(url)\<close> is the platform's URL parser,
  which returns or throws: the parameter \<open>URL_parses\<close> says which.
\<close>

definition URLInput_handleSubmit ::
  "(jsstring \<Rightarrow> bool) \<Rightarrow> url_input \<Rightarrow> url_input \<times> request list" where
  "URLInput_handleSubmit URL_parses st =
     (if ui_url st = [] then (st\<lparr>ui_error := str ''Please enter a URL''\<rparr>, [])
      else if \<not> URL_parses (ui_url st)
      then (st\<lparr>ui_error := str ''Please enter a valid URL (including http:// or https://)''\<rparr>,
            [])
      else (st\<lparr>ui_isLoading := True, ui_error := [], success := []\<rparr>,
            [scrape_request (ui_url st)]))"

record scrape_response =
  website_id :: jsval
  resp_vector_db_id :: jsval
  pages_scraped :: jsval

definition success_text :: "jsval \<Rightarrow> jsstring \<Rightarrow> jsstring" where
  "success_text pages u =
     str ''Successfully scraped and vectorized '' @ to_string pages @ str '' pages from '' @ u"

text \<open>
  \<open>handleSubmit\<close> once the scrape request has settled; \<open>u\<close> is the \<open>url\<close> the closure
  captured at submission, \<open>r\<close> the identity of the object literal built for the caller.
\<close>

definition URLInput_handleSubmit_settled ::
  "'p callback \<Rightarrow> nat \<Rightarrow> jsstring \<Rightarrow> scrape_response outcome \<Rightarrow> url_input \<times> 'p
     \<Rightarrow> url_input \<times> 'p" where
  "URLInput_handleSubmit_settled onWebsiteVectorized r u res sp =
     (case sp of (st, p) \<Rightarrow>
        (case res of
           Resolved data \<Rightarrow>
             (st\<lparr>success := success_text (pages_scraped data) u, ui_isLoading := False\<rparr>,
              call onWebsiteVectorized
                (Some \<lparr>ref = r, websiteId = website_id data,
                       vectorDbId = resp_vector_db_id data, url = u\<rparr>) p)
         | Rejected err \<Rightarrow>
             (st\<lparr>ui_error :=
                   (case response_data_error err of
                      Some e \<Rightarrow>
                        if e \<noteq> [] then e
                        else str ''Failed to scrape the website. Please try again.''
                    | None \<Rightarrow> str ''Failed to scrape the website. Please try again.''),
                 ui_isLoading := False\<rparr>, p)))"

section \<open>Status panel (SystemInfo)\<close>

record system_info =
  ollama_running :: bool
  vectorized_databases :: "jsval list"
  si_websites :: "website list"

record system_info_panel =
  systemInfo :: "system_info option"
  si_isLoading :: bool
  si_error :: jsstring
  isExpanded :: bool

definition SystemInfo_init :: system_info_panel where
  "SystemInfo_init = \<lparr>systemInfo = None, si_isLoading = True, si_error = [], isExpanded = False\<rparr>"

definition system_info_request :: request where
  "system_info_request = \<lparr>verb = GET, path = ''/api/websites/system_info/'', body = None\<rparr>"

text \<open>The mount effect calls \<open>fetchSystemInfo\<close>, which runs up to its \<open>await\<close>.\<close>

definition SystemInfo_mount :: "system_info_panel \<times> request list" where
  "SystemInfo_mount = (SystemInfo_init, [system_info_request])"

definition fetchSystemInfo_settled ::
  "system_info outcome \<Rightarrow> system_info_panel \<Rightarrow> system_info_panel" where
  "fetchSystemInfo_settled res st =
     (case res of
        Resolved data \<Rightarrow> st\<lparr>systemInfo := Some data, si_isLoading := False\<rparr>
      | Rejected err \<Rightarrow>
          st\<lparr>si_error := str ''Failed to load system information'', si_isLoading := False\<rparr>)"

definition toggleExpand :: "system_info_panel \<Rightarrow> system_info_panel" where
  "toggleExpand st = st\<lparr>isExpanded := \<not> isExpanded st\<rparr>"

text \<open>
  The events of a mounted status panel, each with the requests its handler issues, and a
  run that collects the requests of the mount and of every event after it.
\<close>

datatype si_event = Toggle | Info_settled "system_info outcome"

fun SystemInfo_step :: "si_event \<Rightarrow> system_info_panel \<Rightarrow> system_info_panel \<times> request list" where
  "SystemInfo_step Toggle st = (toggleExpand st, [])"
| "SystemInfo_step (Info_settled res) st = (fetchSystemInfo_settled res st, [])"

fun SystemInfo_run ::
  "si_event list \<Rightarrow> system_info_panel \<times> request list \<Rightarrow> system_info_panel \<times> request list" where
  "SystemInfo_run [] sr = sr"
| "SystemInfo_run (ev # evs) (st, reqs) =
     SystemInfo_run evs (fst (SystemInfo_step ev st), reqs @ snd (SystemInfo_step ev st))"

datatype db_row = Known_website jsstring jsval | Unknown_website jsval

fun row_id :: "db_row \<Rightarrow> jsval" where
  "row_id (Known_website u dbId) = dbId"
| "row_id (Unknown_website dbId) = dbId"

definition database_row :: "system_info \<Rightarrow> jsval \<Rightarrow> db_row" where
  "database_row info dbId =
     (case find (\<lambda>w. strict_eq (vector_db_id w) dbId) (si_websites info) of
        Some website \<Rightarrow> Known_website (w_url website) dbId
      | None \<Rightarrow> Unknown_website dbId)"

datatype db_section = Database_list "db_row list" | No_databases_found

fun listed :: "db_section \<Rightarrow> db_row list" where
  "listed (Database_list rs) = rs"
| "listed No_databases_found = []"

definition database_section :: "system_info option \<Rightarrow> db_section" where
  "database_section si =
     (case si of
        None \<Rightarrow> No_databases_found
      | Some info \<Rightarrow>
          if length (vectorized_databases info) > 0
          then Database_list (map (database_row info) (vectorized_databases info))
          else No_databases_found)"

record si_header =
  ollama_online :: bool
  database_count :: nat

datatype si_view =
  SI_loading | SI_error jsstring | SI_collapsed si_header | SI_expanded si_header db_section

definition SystemInfo_header :: "system_info option \<Rightarrow> si_header" where
  "SystemInfo_header si =
     (case si of
        None \<Rightarrow> \<lparr>ollama_online = False, database_count = 0\<rparr>
      | Some info \<Rightarrow>
          \<lparr>ollama_online = ollama_running info,
           database_count = length (vectorized_databases info)\<rparr>)"

definition SystemInfo_render :: "system_info_panel \<Rightarrow> si_view" where
  "SystemInfo_render st =
     (if si_isLoading st then SI_loading
      else if si_error st \<noteq> [] then SI_error (si_error st)
      else if isExpanded st
      then SI_expanded (SystemInfo_header (systemInfo st)) (database_section (systemInfo st))
      else SI_collapsed (SystemInfo_header (systemInfo st)))"

section \<open>Example inputs\<close>

definition site_A :: selected where
  "site_A = \<lparr>ref = 1, websiteId = JNum 1, vectorDbId = JNum 7, url = str ''https://example.com''\<rparr>"

definition site_B :: selected where
  "site_B = \<lparr>ref = 2, websiteId = JNum 2, vectorDbId = JNum 8, url = str ''https://example.org''\<rparr>"

text \<open>The chat panel after the user has typed a question, and after the question was sent.\<close>

definition chat_typed :: chatbox where
  "chat_typed = setInput (str ''What is this about?'') ChatBox_init"

definition network_error :: axios_error where
  "network_error = \<lparr>response_data_error = None, err_message = str ''Network Error''\<rparr>"

text \<open>
  A stand-in for the platform's URL parser in the examples: it accepts what starts with
  \<open>http://\<close> or \<open>https://\<close> and goes on. On the inputs of the examples it answers
  as the parser does.
\<close>

definition http_parser :: "jsstring \<Rightarrow> bool" where
  "http_parser u =
     ((startsWith u (str ''http://'') \<and> length u > 7)
      \<or> (startsWith u (str ''https://'') \<and> length u > 8))"

definition form_typed :: "jsstring \<Rightarrow> url_input" where
  "form_typed u = URLInput_init\<lparr>ui_url := u\<rparr>"

definition scraped_5 :: scrape_response where
  "scraped_5 = \<lparr>website_id = JNum 1, resp_vector_db_id = JNum 7, pages_scraped = JNum 5\<rparr>"

definition site_1 :: website where
  "site_1 =
     \<lparr>w_id = JNum 1, w_url = str ''https://example.com'', w_title = JStr (str ''Example''),
      vector_db_id = JNum 7, date_scraped = JStr (str ''2024-01-01T00:00:00Z'')\<rparr>"

definition site_2 :: website where
  "site_2 =
     \<lparr>w_id = JNum 2, w_url = str ''https://example.org'', w_title = JNull,
      vector_db_id = JNum 8, date_scraped = JStr (str ''2024-01-02T00:00:00Z'')\<rparr>"

definition site_3 :: website where
  "site_3 =
     \<lparr>w_id = JNum 3, w_url = str ''https://example.net'', w_title = JNull,
      vector_db_id = JNull, date_scraped = JStr (str ''2024-01-03T00:00:00Z'')\<rparr>"

text \<open>The roster once its first fetch has come back, and after a click on its first row.\<close>

definition roster_loaded :: vector_selection where
  "roster_loaded =
     fetchWebsites_settled (Resolved [site_1, site_3, site_2]) (fst VectorSelection_mount)"

definition roster_selected :: "vector_selection \<times> app" where
  "roster_selected =
     VectorSelection_handleSelectWebsite (Some App_handleSelectWebsite) 1 site_1
       (roster_loaded, App_init)"




definition locked_error :: axios_error where
  "locked_error =
     \<lparr>response_data_error =
        Some (str ''The process cannot access the file because another process is using it''),
      err_message = str ''Request failed with status code 500''\<rparr>"

definition other_error :: axios_error where
  "other_error =
     \<lparr>response_data_error = Some (str ''Vector database not found''),
      err_message = str ''Request failed with status code 404''\<rparr>"

text \<open>A status snapshot with a database of a known site and one of no site.\<close>

definition info_example :: system_info where
  "info_example =
     \<lparr>ollama_running = True, vectorized_databases = [JNum 7, JNum 9],
      si_websites = [site_1, site_2]\<rparr>"

definition chat_awaiting :: chatbox where
  "chat_awaiting = fst (ChatBox_handleSubmit (Some site_A) 1000 chat_typed)"

section \<open>Properties\<close>

lemma dropWhile_all_iff: "(\<forall>x\<in>set (dropWhile P s). P x) \<longleftrightarrow> (\<forall>x\<in>set s. P x)"
proof
  assume all: "\<forall>x\<in>set (dropWhile P s). P x"
  have "dropWhile P s = []"
  proof (rule ccontr)
    assume ne: "dropWhile P s \<noteq> []"
    then have "\<not> P (hd (dropWhile P s))" by (rule hd_dropWhile)
    moreover from ne have "hd (dropWhile P s) \<in> set (dropWhile P s)" by simp
    ultimately show False using all by blast
  qed
  then show "\<forall>x\<in>set s. P x" by (simp add: dropWhile_eq_Nil_conv)
next
  assume "\<forall>x\<in>set s. P x"
  then show "\<forall>x\<in>set (dropWhile P s). P x" by (blast dest: set_dropWhileD)
qed

lemma trim_empty_iff: "trim s = [] \<longleftrightarrow> blank s"
  by (simp add: trim_def blank_def dropWhile_eq_Nil_conv dropWhile_all_iff list_all_iff)

subsection \<open>Strings\<close>

lemma startsWith_iff: "startsWith s t \<longleftrightarrow> prefix t s"
  by (induction s t rule: startsWith.induct) auto

lemma str_includes_iff: "str_includes s t \<longleftrightarrow> sublist t s"
  by (induction s) (auto simp: startsWith_iff sublist_Cons_right)

lemma str_includes_middle: "str_includes (a @ t @ c) t"
  by (simp add: str_includes_iff)

lemma str_includes_end: "str_includes (a @ t) t"
  by (simp add: str_includes_iff)

lemma str_includes_trans: "str_includes a b \<Longrightarrow> str_includes b c \<Longrightarrow> str_includes a c"
  unfolding str_includes_iff by (rule sublist_order.order.trans)

subsection \<open>Chat panel\<close>

lemma blank_example: "\<not> blank (str ''What is this about?'')"
  by (simp add: blank_def str_def isWhiteSpace_def)

text \<open>
  C1. An accepted submission (input not blank, a site selected) appends the user message
  with the submitted text and issues exactly one request, a POST to \<open>/api/websites/chat/\<close>
  with body \<open>{vector_db_id, query}\<close>; when the request settles, exactly one further
  message is appended (from the assistant on success, from the system on failure), so that
  the transcript has gained the user message and then the reply. A submission with a blank
  input or without a selected site changes nothing and issues no request.
\<close>

theorem ChatBox_submission:
  "(\<not> blank (input st) \<and> prop = Some site \<longrightarrow>
      messages (fst (ChatBox_handleSubmit prop now st)) =
        messages st @ [\<lparr>msg_id = now, msg_text = input st, msg_sender = User, msg_isError = None\<rparr>]
      \<and> snd (ChatBox_handleSubmit prop now st) =
        [\<lparr>verb = POST, path = ''/api/websites/chat/'',
          body = Some [(''vector_db_id'', vectorDbId site), (''query'', JStr (input st))]\<rparr>]
      \<and> (\<exists>reply.
            messages (ChatBox_handleSubmit_settled now' res (fst (ChatBox_handleSubmit prop now st))) =
              messages st @
                [\<lparr>msg_id = now, msg_text = input st, msg_sender = User, msg_isError = None\<rparr>, reply]
            \<and> msg_sender reply = (case res of Resolved a \<Rightarrow> AI | Rejected e \<Rightarrow> System)))
   \<and> (\<exists>reply.
         messages (ChatBox_handleSubmit_settled now' res st') = messages st' @ [reply]
         \<and> msg_sender reply = (case res of Resolved a \<Rightarrow> AI | Rejected e \<Rightarrow> System)
         \<and> (case res of Resolved a \<Rightarrow> msg_text reply = a \<and> msg_isError reply = None
             | Rejected e \<Rightarrow> msg_isError reply = Some True))
   \<and> (blank (input st) \<or> prop = None \<longrightarrow> ChatBox_handleSubmit prop now st = (st, []))"
  by (cases res)
     (auto simp: ChatBox_handleSubmit_def ChatBox_handleSubmit_settled_def chat_request_def
                 trim_empty_iff split: option.splits)

theorem ChatBox_submission_witness:
  "\<not> blank (input chat_typed)
   \<and> messages (fst (ChatBox_handleSubmit (Some site_A) 1000 chat_typed)) =
       [\<lparr>msg_id = 1000, msg_text = str ''What is this about?'', msg_sender = User,
         msg_isError = None\<rparr>]
   \<and> snd (ChatBox_handleSubmit (Some site_A) 1000 chat_typed) =
       [\<lparr>verb = POST, path = ''/api/websites/chat/'',
         body = Some [(''vector_db_id'', JNum 7), (''query'', JStr (str ''What is this about?''))]\<rparr>]
   \<and> map msg_sender
        (messages (ChatBox_handleSubmit_settled 2000 (Resolved (str ''It is a blog.''))
           (fst (ChatBox_handleSubmit (Some site_A) 1000 chat_typed)))) = [User, AI]
   \<and> ChatBox_handleSubmit None 1000 chat_typed = (chat_typed, [])
   \<and> ChatBox_handleSubmit (Some site_A) 1000 (setInput (str ''  '') chat_typed) =
       (setInput (str ''  '') chat_typed, [])"
proof -
  have typed: "input chat_typed = str ''What is this about?''" "messages chat_typed = []"
    by (simp_all add: chat_typed_def setInput_def ChatBox_init_def)
  have nb: "\<not> blank (input chat_typed)"
    by (simp add: typed blank_example)
  have b: "blank (input (setInput (str ''  '') chat_typed))"
    by (simp add: setInput_def blank_def str_def isWhiteSpace_def)
  from ChatBox_submission [of chat_typed "Some site_A" site_A 1000 2000
      "Resolved (str ''It is a blog.'')" chat_typed] nb
  have accepted:
    "messages (fst (ChatBox_handleSubmit (Some site_A) 1000 chat_typed)) =
       [\<lparr>msg_id = 1000, msg_text = str ''What is this about?'', msg_sender = User,
         msg_isError = None\<rparr>]"
    "snd (ChatBox_handleSubmit (Some site_A) 1000 chat_typed) =
       [\<lparr>verb = POST, path = ''/api/websites/chat/'',
         body = Some [(''vector_db_id'', JNum 7), (''query'', JStr (str ''What is this about?''))]\<rparr>]"
    "map msg_sender
        (messages (ChatBox_handleSubmit_settled 2000 (Resolved (str ''It is a blog.''))
           (fst (ChatBox_handleSubmit (Some site_A) 1000 chat_typed)))) = [User, AI]"
    by (auto simp: typed site_A_def)
  from ChatBox_submission [of chat_typed None site_A 1000 2000
      "Resolved (str ''It is a blog.'')" chat_typed]
  have none: "ChatBox_handleSubmit None 1000 chat_typed = (chat_typed, [])"
    by simp
  from ChatBox_submission [of "setInput (str ''  '') chat_typed" "Some site_A" site_A 1000 2000
      "Resolved (str ''It is a blog.'')" chat_typed] b
  have blank: "ChatBox_handleSubmit (Some site_A) 1000 (setInput (str ''  '') chat_typed) =
       (setInput (str ''  '') chat_typed, [])"
    by simp
  from nb accepted none blank show ?thesis by simp
qed

text \<open>
  C9. When a chat request fails, the message appended to the transcript is the fixed text
  with sender \<open>system\<close> and \<open>isError\<close> true, whatever the error carries: two failures
  with different error bodies leave the panel in the same state.
\<close>

theorem ChatBox_failure_message:
  "messages (ChatBox_handleSubmit_settled now (Rejected err) st) =
     messages st @
       [\<lparr>msg_id = now + 1,
         msg_text = str ''Sorry, there was an error processing your request. Please try again.'',
         msg_sender = System, msg_isError = Some True\<rparr>]
   \<and> ChatBox_handleSubmit_settled now (Rejected err) st =
       ChatBox_handleSubmit_settled now (Rejected err') st"
  by (simp add: ChatBox_handleSubmit_settled_def error_text_def)

text \<open>
  C6, as the code has it. When the identity of the selected site changes, the transcript is
  reset to the empty list, and nothing else of the panel changes: the input and the pending
  flag are kept. So the panel is idle with an empty transcript after the change exactly
  when no request was awaited before it; and the next message, whether a new question or
  the reply to a request still in flight, is appended to the empty transcript.
\<close>

theorem ChatBox_selection_change:
  "\<not> object_is prev new \<Longrightarrow>
     messages (ChatBox_rerender prev new st) = []
     \<and> cb_isLoading (ChatBox_rerender prev new st) = cb_isLoading st
     \<and> input (ChatBox_rerender prev new st) = input st
     \<and> (idle (ChatBox_rerender prev new st) \<longleftrightarrow> idle st)
     \<and> length (messages (fst (ChatBox_handleSubmit new now (ChatBox_rerender prev new st)))) \<le> 1
     \<and> length (messages (ChatBox_handleSubmit_settled now res (ChatBox_rerender prev new st))) = 1"
  by (cases res)
     (auto simp: ChatBox_rerender_def clear_chat_def idle_def ChatBox_handleSubmit_def
                 ChatBox_handleSubmit_settled_def split: option.splits)

theorem ChatBox_selection_change_witness:
  "\<not> object_is (Some site_A) (Some site_B)
   \<and> messages chat_awaiting \<noteq> []
   \<and> messages (ChatBox_rerender (Some site_A) (Some site_B) chat_awaiting) = []
   \<and> \<not> object_is None (Some site_A)
   \<and> idle (ChatBox_rerender None (Some site_A) chat_typed)"
proof -
  have ab: "\<not> object_is (Some site_A) (Some site_B)"
    by (simp add: site_A_def site_B_def)
  have na: "\<not> object_is None (Some site_A)"
    by simp
  have aw: "messages chat_awaiting \<noteq> []"
    by (simp add: chat_awaiting_def ChatBox_handleSubmit_def chat_typed_def setInput_def
                  trim_empty_iff blank_example)
  have "idle chat_typed"
    by (simp add: idle_def chat_typed_def setInput_def ChatBox_init_def)
  with ChatBox_selection_change [OF ab, of chat_awaiting 0 "Rejected network_error"]
       ChatBox_selection_change [OF na, of chat_typed 0 "Rejected network_error"] ab na aw
  show ?thesis by simp
qed

text \<open>
  C6, as the claim has it, fails: a selection change while a request is awaited leaves the
  panel awaiting (typing indicator shown, input disabled), not idle.
\<close>

theorem ChatBox_selection_change_not_idle:
  "\<not> object_is (Some site_A) (Some site_B)
   \<and> messages (ChatBox_rerender (Some site_A) (Some site_B) chat_awaiting) = []
   \<and> \<not> idle (ChatBox_rerender (Some site_A) (Some site_B) chat_awaiting)"
  by (simp add: site_A_def site_B_def ChatBox_rerender_def clear_chat_def idle_def
                chat_awaiting_def ChatBox_handleSubmit_def chat_typed_def setInput_def
                trim_empty_iff blank_example)

subsection \<open>URL submission form\<close>

lemma success_text_includes:
  "str_includes (success_text pages u) (to_string pages) \<and> str_includes (success_text pages u) u"
proof
  show "str_includes (success_text pages u) (to_string pages)"
    unfolding success_text_def by (rule str_includes_middle)
  have "str_includes ((str ''Successfully scraped and vectorized '' @ to_string pages @ str '' pages from '') @ u) u"
    by (rule str_includes_end)
  then show "str_includes (success_text pages u) u"
    by (simp add: success_text_def)
qed

text \<open>
  C2. A submitted string that is empty or that the URL parser rejects sets the local error
  message of the form, leaves the rest of its state as it was and issues no request; a
  scrape request is issued only for a non-empty string that the parser accepts, and it is
  the POST to \<open>/api/websites/scrape/\<close> with that string.
\<close>

theorem URLInput_rejects_invalid:
  "(ui_url st = [] \<or> \<not> URL_parses (ui_url st) \<longrightarrow>
      ui_error (fst (URLInput_handleSubmit URL_parses st)) \<noteq> []
      \<and> snd (URLInput_handleSubmit URL_parses st) = []
      \<and> fst (URLInput_handleSubmit URL_parses st) =
          st\<lparr>ui_error := ui_error (fst (URLInput_handleSubmit URL_parses st))\<rparr>)
   \<and> (snd (URLInput_handleSubmit URL_parses st) \<noteq> [] \<longrightarrow>
        ui_url st \<noteq> [] \<and> URL_parses (ui_url st)
        \<and> snd (URLInput_handleSubmit URL_parses st) =
            [\<lparr>verb = POST, path = ''/api/websites/scrape/'',
              body = Some [(''url'', JStr (ui_url st))]\<rparr>])"
  by (simp add: URLInput_handleSubmit_def scrape_request_def str_def)

theorem URLInput_rejects_invalid_witness:
  "\<not> http_parser (str ''not-a-url'')
   \<and> ui_error (fst (URLInput_handleSubmit http_parser (form_typed (str ''not-a-url'')))) \<noteq> []
   \<and> snd (URLInput_handleSubmit http_parser (form_typed (str ''not-a-url''))) = []
   \<and> ui_error (fst (URLInput_handleSubmit http_parser (form_typed []))) \<noteq> []
   \<and> snd (URLInput_handleSubmit http_parser (form_typed [])) = []
   \<and> snd (URLInput_handleSubmit http_parser (form_typed (str ''https://example.com''))) \<noteq> []
   \<and> http_parser (str ''https://example.com'')"
proof -
  have bad: "\<not> http_parser (str ''not-a-url'')"
    by (simp add: http_parser_def str_def)
  have u: "ui_url (form_typed v) = v" for v
    by (simp add: form_typed_def)
  have sent: "snd (URLInput_handleSubmit http_parser (form_typed (str ''https://example.com''))) \<noteq> []"
    by (simp add: URLInput_handleSubmit_def form_typed_def http_parser_def str_def)
  from URLInput_rejects_invalid [of "form_typed (str ''not-a-url'')" http_parser]
       URLInput_rejects_invalid [of "form_typed []" http_parser]
       URLInput_rejects_invalid [of "form_typed (str ''https://example.com'')" http_parser]
       bad sent
  show ?thesis by (simp add: u)
qed

text \<open>
  C7. When the scrape of a submitted url succeeds, the form calls its caller's callback
  exactly once, with the object \<open>{websiteId, vectorDbId, url}\<close> built from the response
  and the submitted url (in the root this overwrites the selected site), and its success
  message contains the page count of the response and the submitted url.
\<close>

theorem URLInput_success:
  "snd (URLInput_handleSubmit_settled (Some (\<lambda>v calls. calls @ [v])) r (ui_url st)
          (Resolved data) (st', [])) =
     [Some \<lparr>ref = r, websiteId = website_id data, vectorDbId = resp_vector_db_id data,
            url = ui_url st\<rparr>]
   \<and> selectedWebsite (snd (URLInput_handleSubmit_settled (Some App_handleWebsiteVectorized) r
        (ui_url st) (Resolved data) (st', root))) =
       Some \<lparr>ref = r, websiteId = website_id data, vectorDbId = resp_vector_db_id data,
             url = ui_url st\<rparr>
   \<and> success (fst (URLInput_handleSubmit_settled cb r (ui_url st) (Resolved data) (st', p))) =
       str ''Successfully scraped and vectorized '' @ to_string (pages_scraped data) @
       str '' pages from '' @ ui_url st
   \<and> str_includes
        (success (fst (URLInput_handleSubmit_settled cb r (ui_url st) (Resolved data) (st', p))))
        (to_string (pages_scraped data))
   \<and> str_includes
        (success (fst (URLInput_handleSubmit_settled cb r (ui_url st) (Resolved data) (st', p))))
        (ui_url st)"
  using success_text_includes [of "pages_scraped data" "ui_url st"]
  by (simp add: URLInput_handleSubmit_settled_def call_def App_handleWebsiteVectorized_def)
     (simp add: success_text_def)

text \<open>
  The scenario of C7: \<open>https://example.com\<close> is scraped with \<open>pages_scraped = 5\<close>.
\<close>

theorem URLInput_success_example:
  "str_includes
     (success (fst (URLInput_handleSubmit_settled (Some App_handleWebsiteVectorized) 3
        (ui_url (form_typed (str ''https://example.com''))) (Resolved scraped_5)
        (fst (URLInput_handleSubmit http_parser (form_typed (str ''https://example.com''))), App_init))))
     (str ''5'')
   \<and> str_includes
     (success (fst (URLInput_handleSubmit_settled (Some App_handleWebsiteVectorized) 3
        (ui_url (form_typed (str ''https://example.com''))) (Resolved scraped_5)
        (fst (URLInput_handleSubmit http_parser (form_typed (str ''https://example.com''))), App_init))))
     (str ''https://example.com'')
   \<and> selectedWebsite (snd (URLInput_handleSubmit_settled (Some App_handleWebsiteVectorized) 3
        (ui_url (form_typed (str ''https://example.com''))) (Resolved scraped_5)
        (fst (URLInput_handleSubmit http_parser (form_typed (str ''https://example.com''))), App_init))) =
       Some \<lparr>ref = 3, websiteId = JNum 1, vectorDbId = JNum 7, url = str ''https://example.com''\<rparr>"
proof -
  have five: "to_string (pages_scraped scraped_5) = str ''5''"
    by (simp add: scraped_5_def digits.simps str_def)
  have u: "ui_url (form_typed v) = v" for v
    by (simp add: form_typed_def)
  have d: "website_id scraped_5 = JNum 1" "resp_vector_db_id scraped_5 = JNum 7"
    by (simp_all add: scraped_5_def)
  from URLInput_success [of 3 "form_typed (str ''https://example.com'')" scraped_5
      "fst (URLInput_handleSubmit http_parser (form_typed (str ''https://example.com'')))" App_init
      "Some App_handleWebsiteVectorized" App_init]
  show ?thesis unfolding five u d by blast
qed

subsection \<open>Site roster\<close>

lemma fetchWebsites_settled_websites:
  "websites (fetchWebsites_settled res st) =
     (case res of Resolved data \<Rightarrow> filter (\<lambda>w. truthy (vector_db_id w)) data
      | Rejected err \<Rightarrow> websites st)"
  by (simp add: fetchWebsites_settled_def split: outcome.splits)

lemma step_websites:
  "websites (fst (VectorSelection_step cb (st, p) ev)) = websites st
   \<or> (\<exists>data. websites (fst (VectorSelection_step cb (st, p) ev)) =
         filter (\<lambda>w. truthy (vector_db_id w)) data)"
proof (cases ev)
  case (Fetch_settled res)
  then show ?thesis by (cases res) (auto simp: fetchWebsites_settled_websites)
next
  case (Select_row r w)
  then show ?thesis by (simp add: VectorSelection_handleSelectWebsite_def)
next
  case (Delete_click c w)
  then show ?thesis by (simp add: handleDeleteWebsite_def)
next
  case (Delete_settled w seen res)
  then show ?thesis
    by (cases res) (simp_all add: handleDeleteWebsite_settled_def fetchWebsites_def)
next
  case (Refetch_settled res)
  then show ?thesis
    by (cases res) (auto simp: handleDeleteWebsite_refetched_def fetchWebsites_settled_websites)
qed

lemma step_vectorized:
  assumes "\<forall>w\<in>set (websites (fst sp)). truthy (vector_db_id w)"
  shows "\<forall>w\<in>set (websites (fst (VectorSelection_step cb sp ev))). truthy (vector_db_id w)"
proof -
  obtain st p where sp: "sp = (st, p)" by (cases sp)
  from step_websites [of cb st p ev] assms show ?thesis
    unfolding sp by auto
qed

lemma run_vectorized:
  "\<forall>w\<in>set (websites (fst sp)). truthy (vector_db_id w) \<Longrightarrow>
   \<forall>w\<in>set (websites (fst (VectorSelection_run cb evs sp))). truthy (vector_db_id w)"
  unfolding VectorSelection_run_def
proof (induction evs arbitrary: sp)
  case Nil
  then show ?case by simp
next
  case (Cons ev evs)
  from Cons.prems have "\<forall>w\<in>set (websites (fst (VectorSelection_step cb sp ev))). truthy (vector_db_id w)"
    by (rule step_vectorized)
  then show ?case using Cons.IH by simp
qed

lemma mount_websites: "websites (fst VectorSelection_mount) = []"
  by (simp add: VectorSelection_mount_def fetchWebsites_def VectorSelection_init_def)

lemma rows_of_render:
  "row_site ` set (rows_of (VectorSelection_render st)) \<subseteq> set (websites st)"
  by (auto simp: VectorSelection_render_def render_row_def)

text \<open>
  C3. Of a list of sites that \<open>GET /api/websites/\<close> returns, the roster retains exactly
  the entries whose \<open>vector_db_id\<close> is truthy, in their order, and these are the rows it
  displays. Whatever happens to a mounted roster afterwards, every site of its list and
  every row it renders has a truthy \<open>vector_db_id\<close>: an entry whose id is \<open>null\<close> or
  absent is never rendered.
\<close>

theorem roster_only_vectorized:
  "websites (fetchWebsites_settled (Resolved data) st) =
     filter (\<lambda>w. truthy (vector_db_id w)) data
   \<and> map row_site (rows_of (VectorSelection_render (fetchWebsites_settled (Resolved data) st))) =
       (if vs_error st = [] then filter (\<lambda>w. truthy (vector_db_id w)) data else [])
   \<and> (\<forall>w\<in>set (websites (fst (VectorSelection_run cb evs (fst VectorSelection_mount, p)))).
         truthy (vector_db_id w))
   \<and> (\<forall>r\<in>set (rows_of (VectorSelection_render
                (fst (VectorSelection_run cb evs (fst VectorSelection_mount, p))))).
         truthy (vector_db_id (row_site r))
         \<and> vector_db_id (row_site r) \<noteq> JNull \<and> vector_db_id (row_site r) \<noteq> JUndefined)"
proof -
  let ?st = "fst (VectorSelection_run cb evs (fst VectorSelection_mount, p))"
  have a: "websites (fetchWebsites_settled (Resolved data) st) =
     filter (\<lambda>w. truthy (vector_db_id w)) data"
    by (simp add: fetchWebsites_settled_websites)
  have b: "map row_site (rows_of (VectorSelection_render (fetchWebsites_settled (Resolved data) st))) =
       (if vs_error st = [] then filter (\<lambda>w. truthy (vector_db_id w)) data else [])"
    by (simp add: VectorSelection_render_def fetchWebsites_settled_def render_row_def comp_def)
  have c: "\<forall>w\<in>set (websites ?st). truthy (vector_db_id w)"
    by (rule run_vectorized) (simp add: mount_websites)
  have d: "truthy (vector_db_id (row_site r)) \<and> vector_db_id (row_site r) \<noteq> JNull
           \<and> vector_db_id (row_site r) \<noteq> JUndefined"
    if "r \<in> set (rows_of (VectorSelection_render ?st))" for r
  proof -
    from that rows_of_render [of ?st] have "row_site r \<in> set (websites ?st)" by blast
    with c have "truthy (vector_db_id (row_site r))" by blast
    then show ?thesis by auto
  qed
  from a b c d show ?thesis by blast
qed

lemma roster_loaded_eq:
  "roster_loaded =
     \<lparr>websites = [site_1, site_2], vs_isLoading = False, vs_error = [],
      vs_selectedWebsite = None, deletingId = JNull\<rparr>"
  by (simp add: roster_loaded_def fetchWebsites_settled_def VectorSelection_mount_def
                fetchWebsites_def VectorSelection_init_def site_1_def site_2_def site_3_def)

theorem roster_only_vectorized_witness:
  "websites roster_loaded = [site_1, site_2]
   \<and> map row_site (rows_of (VectorSelection_render roster_loaded)) = [site_1, site_2]
   \<and> truthy (vector_db_id site_1)
   \<and> \<not> truthy (vector_db_id site_3)"
proof -
  let ?evs = "[Fetch_settled (Resolved [site_1, site_3, site_2])]"
  have run: "fst (VectorSelection_run (Some App_handleSelectWebsite) ?evs
               (fst VectorSelection_mount, App_init)) = roster_loaded"
    by (simp add: VectorSelection_run_def roster_loaded_def)
  have row: "render_row roster_loaded site_1 \<in> set (rows_of (VectorSelection_render roster_loaded))"
    by (simp add: VectorSelection_render_def roster_loaded_eq)
  have s: "row_site (render_row roster_loaded site_1) = site_1"
    by (simp add: render_row_def)
  note inst = roster_only_vectorized [of "[site_1, site_3, site_2]" "fst VectorSelection_mount"
      "Some App_handleSelectWebsite" ?evs App_init]
  from inst have "websites roster_loaded =
      filter (\<lambda>w. truthy (vector_db_id w)) [site_1, site_3, site_2]"
    unfolding roster_loaded_def by blast
  then have a: "websites roster_loaded = [site_1, site_2]"
    by (simp add: site_1_def site_2_def site_3_def)
  from inst have b: "map row_site (rows_of (VectorSelection_render roster_loaded)) = [site_1, site_2]"
    unfolding run by (simp add: roster_loaded_eq VectorSelection_render_def render_row_def)
  from inst row have "truthy (vector_db_id (row_site (render_row roster_loaded site_1)))"
    unfolding run by blast
  then have c: "truthy (vector_db_id site_1)"
    by (simp only: s)
  have d: "\<not> truthy (vector_db_id site_3)"
    by (simp add: site_3_def)
  from a b c d show ?thesis by blast
qed



lemma roster_selected_eq:
  "roster_selected =
     (roster_loaded\<lparr>vs_selectedWebsite := Some site_1\<rparr>,
      \<lparr>selectedWebsite = Some \<lparr>ref = 1, websiteId = JNum 1, vectorDbId = JNum 7,
                               url = str ''https://example.com''\<rparr>\<rparr>)"
  by (simp add: roster_selected_def VectorSelection_handleSelectWebsite_def call_def
                App_handleSelectWebsite_def App_init_def site_1_def)



lemma lock_text_clean:
  "\<not> str_includes lock_text (str ''process is using'')"
  "\<not> str_includes lock_text (str ''restart the server'')"
  by (simp_all add: lock_text_def str_def)

lemma lock_text_instructs: "str_includes lock_text (str ''Please restart the Django server'')"
  by (simp add: lock_text_def str_def)

lemma lock_text_not_raw:
  assumes "str_includes e (str ''process is using'') \<or> str_includes e (str ''restart the server'')"
  shows "\<not> str_includes lock_text e"
proof
  assume "str_includes lock_text e"
  with assms have "str_includes lock_text (str ''process is using'')
                   \<or> str_includes lock_text (str ''restart the server'')"
    by (blast intro: str_includes_trans)
  with lock_text_clean show False by blast
qed

lemma delete_error_text_nonempty: "delete_error_text m \<noteq> []"
  by (simp add: delete_error_text_def lock_text_def str_def)

text \<open>
  C5. When a delete fails with a backend message that contains \<open>process is using\<close> or
  \<open>restart the server\<close>, the error shown is the fixed instruction to restart the server,
  which does not contain the backend message. When the message of a failed delete (the
  backend's, or \<open>err.message\<close> when the backend gave none) contains neither, the error
  shown is \<open>Failed to delete website: \<close> followed by that message.
\<close>

theorem delete_failure_text:
  "(response_data_error err = Some e
      \<and> (str_includes e (str ''process is using'') \<or> str_includes e (str ''restart the server''))
      \<longrightarrow> vs_error (fst (fst (handleDeleteWebsite_settled cb website seen (Rejected err) (st, p))))
            = lock_text
          \<and> \<not> str_includes lock_text e
          \<and> str_includes lock_text (str ''Please restart the Django server''))
   \<and> (\<not> str_includes (errorMessage_of err) (str ''process is using'')
      \<and> \<not> str_includes (errorMessage_of err) (str ''restart the server'')
      \<longrightarrow> vs_error (fst (fst (handleDeleteWebsite_settled cb website seen (Rejected err) (st, p))))
            = str ''Failed to delete website: '' @ errorMessage_of err
          \<and> str_includes
              (vs_error (fst (fst (handleDeleteWebsite_settled cb website seen (Rejected err) (st, p)))))
              (errorMessage_of err))
   \<and> errorMessage_of err =
       (if response_data_error err = None \<or> response_data_error err = Some []
        then err_message err else the (response_data_error err))
   \<and> (\<not> vs_isLoading st \<longrightarrow>
        VectorSelection_render (fst (fst (handleDeleteWebsite_settled cb website seen (Rejected err) (st, p))))
        = Roster_error
            (vs_error (fst (fst (handleDeleteWebsite_settled cb website seen (Rejected err) (st, p))))))"
proof -
  let ?st = "fst (fst (handleDeleteWebsite_settled cb website seen (Rejected err) (st, p)))"
  have err: "vs_error ?st = delete_error_text (errorMessage_of err)"
    and loading: "vs_isLoading ?st = vs_isLoading st"
    by (simp_all add: handleDeleteWebsite_settled_def)
  have a: "vs_error ?st = lock_text \<and> \<not> str_includes lock_text e
           \<and> str_includes lock_text (str ''Please restart the Django server'')"
    if e: "response_data_error err = Some e"
      and l: "str_includes e (str ''process is using'') \<or> str_includes e (str ''restart the server'')"
  proof -
    from l have "e \<noteq> []" by (auto simp: str_def)
    with e have "errorMessage_of err = e" by (simp add: errorMessage_of_def)
    with l have "vs_error ?st = lock_text" by (auto simp: err delete_error_text_def)
    with lock_text_not_raw [OF l] lock_text_instructs show ?thesis by blast
  qed
  have b: "vs_error ?st = str ''Failed to delete website: '' @ errorMessage_of err
           \<and> str_includes (vs_error ?st) (errorMessage_of err)"
    if "\<not> str_includes (errorMessage_of err) (str ''process is using'')
        \<and> \<not> str_includes (errorMessage_of err) (str ''restart the server'')"
    using that by (simp add: err delete_error_text_def str_includes_end)
  have c: "errorMessage_of err =
       (if response_data_error err = None \<or> response_data_error err = Some []
        then err_message err else the (response_data_error err))"
    by (auto simp: errorMessage_of_def split: option.splits)
  have d: "VectorSelection_render ?st = Roster_error (vs_error ?st)" if "\<not> vs_isLoading st"
    using that delete_error_text_nonempty [of "errorMessage_of err"]
    by (simp add: VectorSelection_render_def loading err)
  from a b c d show ?thesis by blast
qed

theorem delete_failure_text_witness:
  "vs_error (fst (fst (handleDeleteWebsite_settled (Some App_handleSelectWebsite) site_1 None
      (Rejected locked_error) (roster_loaded, App_init)))) = lock_text
   \<and> lock_text \<noteq> the (response_data_error locked_error)
   \<and> vs_error (fst (fst (handleDeleteWebsite_settled (Some App_handleSelectWebsite) site_1 None
      (Rejected other_error) (roster_loaded, App_init)))) =
       str ''Failed to delete website: Vector database not found''
   \<and> VectorSelection_render (fst (fst (handleDeleteWebsite_settled (Some App_handleSelectWebsite)
      site_1 None (Rejected locked_error) (roster_loaded, App_init)))) = Roster_error lock_text"
proof -
  have e: "response_data_error locked_error =
      Some (str ''The process cannot access the file because another process is using it'')"
    by (simp add: locked_error_def)
  have l: "str_includes (str ''The process cannot access the file because another process is using it'')
      (str ''process is using'')"
    by (simp add: str_def)
  have o: "errorMessage_of other_error = str ''Vector database not found''"
    by (simp add: errorMessage_of_def other_error_def str_def)
  have no: "\<not> str_includes (errorMessage_of other_error) (str ''process is using'')"
      "\<not> str_includes (errorMessage_of other_error) (str ''restart the server'')"
    unfolding o by (simp_all add: str_def)
  have nl: "\<not> vs_isLoading roster_loaded"
    by (simp add: roster_loaded_eq)
  note locked = delete_failure_text [of locked_error
      "str ''The process cannot access the file because another process is using it''"
      "Some App_handleSelectWebsite" site_1 None roster_loaded App_init]
  note other = delete_failure_text [of other_error "[]"
      "Some App_handleSelectWebsite" site_1 None roster_loaded App_init]
  from locked e l have a: "vs_error (fst (fst (handleDeleteWebsite_settled
      (Some App_handleSelectWebsite) site_1 None (Rejected locked_error) (roster_loaded, App_init))))
      = lock_text"
    and a': "\<not> str_includes lock_text
      (str ''The process cannot access the file because another process is using it'')"
    by blast+
  from a' have b: "lock_text \<noteq> the (response_data_error locked_error)"
    unfolding e by (auto simp: str_includes_iff)
  from other no have "vs_error (fst (fst (handleDeleteWebsite_settled
      (Some App_handleSelectWebsite) site_1 None (Rejected other_error) (roster_loaded, App_init))))
      = str ''Failed to delete website: '' @ errorMessage_of other_error"
    by blast
  then have c: "vs_error (fst (fst (handleDeleteWebsite_settled
      (Some App_handleSelectWebsite) site_1 None (Rejected other_error) (roster_loaded, App_init))))
      = str ''Failed to delete website: Vector database not found''"
    by (simp add: o str_def)
  from locked nl a have d: "VectorSelection_render (fst (fst (handleDeleteWebsite_settled
      (Some App_handleSelectWebsite) site_1 None (Rejected locked_error) (roster_loaded, App_init))))
      = Roster_error lock_text"
    by simp
  from a b c d show ?thesis by blast
qed

text \<open>
  C10. A failed delete leaves the roster's list of sites, its selection and its loading
  flag as they were, calls no callback of the caller and issues no request: from the click
  to the failure, only the error message and \<open>deletingId\<close> change.
\<close>

theorem delete_failure_frame:
  "websites (fst (handleDeleteWebsite c website st)) = websites st
   \<and> vs_selectedWebsite (fst (handleDeleteWebsite c website st)) = vs_selectedWebsite st
   \<and> websites (fst (fst (handleDeleteWebsite_settled cb website seen (Rejected err) (st', p))))
       = websites st'
   \<and> vs_selectedWebsite (fst (fst (handleDeleteWebsite_settled cb website seen (Rejected err) (st', p))))
       = vs_selectedWebsite st'
   \<and> vs_isLoading (fst (fst (handleDeleteWebsite_settled cb website seen (Rejected err) (st', p))))
       = vs_isLoading st'
   \<and> snd (fst (handleDeleteWebsite_settled cb website seen (Rejected err) (st', p))) = p
   \<and> snd (handleDeleteWebsite_settled cb website seen (Rejected err) (st', p)) = []
   \<and> fst (fst (handleDeleteWebsite_settled cb website seen (Rejected err) (st', p)))
       = st'\<lparr>vs_error := vs_error
               (fst (fst (handleDeleteWebsite_settled cb website seen (Rejected err) (st', p)))),
             deletingId := JNull\<rparr>"
  by (simp add: handleDeleteWebsite_def handleDeleteWebsite_settled_def)

theorem delete_failure_frame_witness:
  "websites (fst (fst (handleDeleteWebsite_settled (Some App_handleSelectWebsite) site_1
      (vs_selectedWebsite (fst roster_selected)) (Rejected locked_error)
      (fst (handleDeleteWebsite True site_1 (fst roster_selected)), snd roster_selected))))
     = [site_1, site_2]
   \<and> vs_selectedWebsite (fst (fst (handleDeleteWebsite_settled (Some App_handleSelectWebsite) site_1
      (vs_selectedWebsite (fst roster_selected)) (Rejected locked_error)
      (fst (handleDeleteWebsite True site_1 (fst roster_selected)), snd roster_selected))))
     = Some site_1
   \<and> snd (fst (handleDeleteWebsite_settled (Some App_handleSelectWebsite) site_1
      (vs_selectedWebsite (fst roster_selected)) (Rejected locked_error)
      (fst (handleDeleteWebsite True site_1 (fst roster_selected)), snd roster_selected)))
     = snd roster_selected"
  using delete_failure_frame [of True site_1 "fst roster_selected" "Some App_handleSelectWebsite"
      "vs_selectedWebsite (fst roster_selected)" locked_error
      "fst (handleDeleteWebsite True site_1 (fst roster_selected))" "snd roster_selected"]
  by (simp add: roster_selected_eq roster_loaded_eq)

subsection \<open>Status panel\<close>

lemma SystemInfo_step_requests: "snd (SystemInfo_step ev st) = []"
  by (cases ev) simp_all

lemma SystemInfo_run_requests: "snd (SystemInfo_run evs (st, reqs)) = reqs"
  by (induction evs arbitrary: st reqs) (simp_all add: SystemInfo_step_requests)

lemma listed_database_section:
  "listed (database_section (Some info)) = map (database_row info) (vectorized_databases info)"
  by (simp add: database_section_def)

lemma row_id_database_row: "row_id (database_row info d) = d"
  by (simp add: database_row_def split: option.splits)

lemma database_row_known:
  assumes "\<exists>w\<in>set (si_websites info). vector_db_id w = d"
  shows "\<exists>j<length (si_websites info).
           vector_db_id (si_websites info ! j) = d
           \<and> (\<forall>k<j. vector_db_id (si_websites info ! k) \<noteq> d)
           \<and> database_row info d = Known_website (w_url (si_websites info ! j)) d"
proof (cases "find (\<lambda>w. strict_eq (vector_db_id w) d) (si_websites info)")
  case None
  with assms show ?thesis by (auto simp: find_None_iff strict_eq_def)
next
  case (Some w)
  then obtain j where "j < length (si_websites info)" "vector_db_id (si_websites info ! j) = d"
      "w = si_websites info ! j" "\<forall>k<j. vector_db_id (si_websites info ! k) \<noteq> d"
    by (auto simp: find_Some_iff strict_eq_def)
  with Some show ?thesis by (auto simp: database_row_def)
qed

lemma database_row_unknown:
  assumes "\<forall>w\<in>set (si_websites info). vector_db_id w \<noteq> d"
  shows "database_row info d = Unknown_website d"
proof -
  from assms have "find (\<lambda>w. strict_eq (vector_db_id w) d) (si_websites info) = None"
    by (auto simp: find_None_iff strict_eq_def)
  then show ?thesis by (simp add: database_row_def)
qed

text \<open>
  C8. The status panel issues its one request, \<open>GET /api/websites/system_info/\<close>, when
  it mounts, and none afterwards, whatever events follow. Loaded and expanded, it lists the
  ids of \<open>vectorized_databases\<close>, all of them and in their order; the row of an id shows
  the url of the first site of the snapshot whose \<open>vector_db_id\<close> equals the id when
  there is one, and is labelled unknown when there is none.
\<close>

theorem status_panel:
  "snd (SystemInfo_run evs SystemInfo_mount) =
     [\<lparr>verb = GET, path = ''/api/websites/system_info/'', body = None\<rparr>]
   \<and> (\<not> si_isLoading st \<and> si_error st = [] \<and> isExpanded st \<and> systemInfo st = Some info \<longrightarrow>
        (\<exists>header listing.
           SystemInfo_render st = SI_expanded header listing
           \<and> map row_id (listed listing) = vectorized_databases info
           \<and> (\<forall>i<length (vectorized_databases info).
                 ((\<exists>w\<in>set (si_websites info). vector_db_id w = vectorized_databases info ! i) \<longrightarrow>
                    (\<exists>j<length (si_websites info).
                       vector_db_id (si_websites info ! j) = vectorized_databases info ! i
                       \<and> (\<forall>k<j. vector_db_id (si_websites info ! k) \<noteq> vectorized_databases info ! i)
                       \<and> listed listing ! i =
                           Known_website (w_url (si_websites info ! j)) (vectorized_databases info ! i)))
                 \<and> ((\<forall>w\<in>set (si_websites info). vector_db_id w \<noteq> vectorized_databases info ! i) \<longrightarrow>
                      listed listing ! i = Unknown_website (vectorized_databases info ! i)))))"
proof
  show "snd (SystemInfo_run evs SystemInfo_mount) =
     [\<lparr>verb = GET, path = ''/api/websites/system_info/'', body = None\<rparr>]"
    by (simp add: SystemInfo_mount_def SystemInfo_run_requests system_info_request_def)
next
  show "\<not> si_isLoading st \<and> si_error st = [] \<and> isExpanded st \<and> systemInfo st = Some info \<longrightarrow>
        (\<exists>header listing.
           SystemInfo_render st = SI_expanded header listing
           \<and> map row_id (listed listing) = vectorized_databases info
           \<and> (\<forall>i<length (vectorized_databases info).
                 ((\<exists>w\<in>set (si_websites info). vector_db_id w = vectorized_databases info ! i) \<longrightarrow>
                    (\<exists>j<length (si_websites info).
                       vector_db_id (si_websites info ! j) = vectorized_databases info ! i
                       \<and> (\<forall>k<j. vector_db_id (si_websites info ! k) \<noteq> vectorized_databases info ! i)
                       \<and> listed listing ! i =
                           Known_website (w_url (si_websites info ! j)) (vectorized_databases info ! i)))
                 \<and> ((\<forall>w\<in>set (si_websites info). vector_db_id w \<noteq> vectorized_databases info ! i) \<longrightarrow>
                      listed listing ! i = Unknown_website (vectorized_databases info ! i))))"
  proof
    assume loaded: "\<not> si_isLoading st \<and> si_error st = [] \<and> isExpanded st \<and> systemInfo st = Some info"
    let ?listing = "database_section (Some info)"
    from loaded have render:
      "SystemInfo_render st = SI_expanded (SystemInfo_header (Some info)) ?listing"
      by (simp add: SystemInfo_render_def)
    have ids: "map row_id (listed ?listing) = vectorized_databases info"
      by (simp add: listed_database_section comp_def row_id_database_row)
    have nth: "listed ?listing ! i = database_row info (vectorized_databases info ! i)"
      if "i < length (vectorized_databases info)" for i
      using that by (simp add: listed_database_section)
    have rows: "\<forall>i<length (vectorized_databases info).
                 ((\<exists>w\<in>set (si_websites info). vector_db_id w = vectorized_databases info ! i) \<longrightarrow>
                    (\<exists>j<length (si_websites info).
                       vector_db_id (si_websites info ! j) = vectorized_databases info ! i
                       \<and> (\<forall>k<j. vector_db_id (si_websites info ! k) \<noteq> vectorized_databases info ! i)
                       \<and> listed ?listing ! i =
                           Known_website (w_url (si_websites info ! j)) (vectorized_databases info ! i)))
                 \<and> ((\<forall>w\<in>set (si_websites info). vector_db_id w \<noteq> vectorized_databases info ! i) \<longrightarrow>
                      listed ?listing ! i = Unknown_website (vectorized_databases info ! i))"
      using database_row_known database_row_unknown by (simp add: nth)
    from render ids rows show "\<exists>header listing.
           SystemInfo_render st = SI_expanded header listing
           \<and> map row_id (listed listing) = vectorized_databases info
           \<and> (\<forall>i<length (vectorized_databases info).
                 ((\<exists>w\<in>set (si_websites info). vector_db_id w = vectorized_databases info ! i) \<longrightarrow>
                    (\<exists>j<length (si_websites info).
                       vector_db_id (si_websites info ! j) = vectorized_databases info ! i
                       \<and> (\<forall>k<j. vector_db_id (si_websites info ! k) \<noteq> vectorized_databases info ! i)
                       \<and> listed listing ! i =
                           Known_website (w_url (si_websites info ! j)) (vectorized_databases info ! i)))
                 \<and> ((\<forall>w\<in>set (si_websites info). vector_db_id w \<noteq> vectorized_databases info ! i) \<longrightarrow>
                      listed listing ! i = Unknown_website (vectorized_databases info ! i)))"
      by blast
  qed
qed

lemma panel_example:
  "fst (SystemInfo_run [Info_settled (Resolved info_example), Toggle] SystemInfo_mount) =
     \<lparr>systemInfo = Some info_example, si_isLoading = False, si_error = [], isExpanded = True\<rparr>"
  by (simp add: SystemInfo_mount_def SystemInfo_init_def fetchSystemInfo_settled_def
                toggleExpand_def)

theorem status_panel_witness:
  "snd (SystemInfo_run [Info_settled (Resolved info_example), Toggle] SystemInfo_mount) =
     [\<lparr>verb = GET, path = ''/api/websites/system_info/'', body = None\<rparr>]
   \<and> SystemInfo_render
       (fst (SystemInfo_run [Info_settled (Resolved info_example), Toggle] SystemInfo_mount)) =
       SI_expanded \<lparr>ollama_online = True, database_count = 2\<rparr>
         (Database_list [Known_website (str ''https://example.com'') (JNum 7),
                         Unknown_website (JNum 9)])"
proof -
  let ?evs = "[Info_settled (Resolved info_example), Toggle]"
  let ?st = "fst (SystemInfo_run ?evs SystemInfo_mount)"
  have loaded: "\<not> si_isLoading ?st \<and> si_error ?st = [] \<and> isExpanded ?st
                \<and> systemInfo ?st = Some info_example"
    by (simp add: panel_example)
  from status_panel [of ?evs ?st info_example]
  have a: "snd (SystemInfo_run ?evs SystemInfo_mount) =
     [\<lparr>verb = GET, path = ''/api/websites/system_info/'', body = None\<rparr>]"
    by blast
  from status_panel [of ?evs ?st info_example] loaded
  obtain header listing where "SystemInfo_render ?st = SI_expanded header listing"
    by blast
  then have b: "SystemInfo_render ?st =
       SI_expanded \<lparr>ollama_online = True, database_count = 2\<rparr>
         (Database_list [Known_website (str ''https://example.com'') (JNum 7),
                         Unknown_website (JNum 9)])"
    unfolding panel_example
    by (auto simp: SystemInfo_render_def SystemInfo_header_def database_section_def
                   database_row_def info_example_def site_1_def site_2_def strict_eq_def
                   numeral_2_eq_2)
  from a b show ?thesis by blast
qed

end
